theory Spec2Isabelle
  imports Complex_Main "HOL-Library.Sublist"
begin

section \<open>Data model (chatbot.ts, templates.ts)\<close>

text \<open>
  A TypeScript object property is in one of three states: the key is absent, the key is
  present and holds \<^verbatim>\<open>undefined\<close>, or the key is present and holds a value. Reading an
  absent key and reading a key that holds \<^verbatim>\<open>undefined\<close> both give \<^verbatim>\<open>undefined\<close>, but the
  object spread \<^verbatim>\<open>{...a, ...b}\<close> copies every key that is present in \<^verbatim>\<open>b\<close>, whatever it
  holds. \<^verbatim>\<open>clearTemplate\<close> stores \<^verbatim>\<open>undefined\<close> under a present key, so the three states are
  kept apart.
\<close>

datatype 'a property = Absent | Undefined | Value 'a

fun read :: "'a property \<Rightarrow> 'a option" where
  "read Absent = None"
| "read Undefined = None"
| "read (Value v) = Some v"

text \<open>
  \<^verbatim>\<open>interface ChatbotConfig\<close>, every field optional. A \<^verbatim>\<open>number\<close> is modelled by the real it
  denotes (NaN and the infinities are left out); \<^verbatim>\<open>maxTokens\<close> is a count.
\<close>

record ChatbotConfig =
  model :: "string property"
  temperature :: "real property"
  maxTokens :: "int property"
  preamble :: "string property"
  enableStreaming :: "bool property"
  activeTemplate :: "string property"

datatype role = User | Assistant | System

text \<open>\<^verbatim>\<open>interface ChatMessage\<close>; the timestamp is the clock reading in milliseconds.\<close>

record ChatMessage =
  role :: role
  content :: string
  timestamp :: "nat option"

datatype ChatbotPreset = Precise | Balanced | Creative

fun CHATBOT_PRESETS :: "ChatbotPreset \<Rightarrow> ChatbotConfig" where
  "CHATBOT_PRESETS Precise =
     \<lparr>model = Value ''command-r-plus'', temperature = Value 0.0, maxTokens = Value 500,
      preamble = Value ''You are a helpful and precise assistant. Provide accurate and factual responses.'',
      enableStreaming = Value False, activeTemplate = Absent\<rparr>"
| "CHATBOT_PRESETS Balanced =
     \<lparr>model = Value ''command-r-plus'', temperature = Value 0.3, maxTokens = Value 500,
      preamble = Value ''You are a helpful assistant. Be informative and conversational.'',
      enableStreaming = Value False, activeTemplate = Absent\<rparr>"
| "CHATBOT_PRESETS Creative =
     \<lparr>model = Value ''command-r-plus'', temperature = Value 1.0, maxTokens = Value 500,
      preamble = Value ''You are a creative and imaginative assistant. Feel free to be expressive and think outside the box.'',
      enableStreaming = Value False, activeTemplate = Absent\<rparr>"

text \<open>
  The session object: \<^verbatim>\<open>this.config\<close>, \<^verbatim>\<open>this.conversationHistory\<close>, and the lines the
  class writes to the console. \<^verbatim>\<open>this.client\<close> is the external service; it is passed to
  each turn (see \<open>CohereClient\<close> below).
\<close>

record CohereChatbot =
  config :: ChatbotConfig
  conversationHistory :: "ChatMessage list"
  console :: "string list"

subsection \<open>JavaScript truthiness of the fields the class tests\<close>

text \<open>\<^verbatim>\<open>if (s)\<close> on an optional string: true for a non-empty string only.\<close>

fun truthyString :: "string property \<Rightarrow> bool" where
  "truthyString (Value s) = (s \<noteq> [])"
| "truthyString _ = False"

text \<open>\<^verbatim>\<open>if (b)\<close> on an optional boolean.\<close>

fun truthyBool :: "bool property \<Rightarrow> bool" where
  "truthyBool (Value b) = b"
| "truthyBool _ = False"

text \<open>\<^verbatim>\<open>n || d\<close> on an optional number: \<^verbatim>\<open>d\<close> when \<^verbatim>\<open>n\<close> is undefined or zero.\<close>

fun numberOr :: "real property \<Rightarrow> real \<Rightarrow> real" where
  "numberOr (Value n) d = (if n = 0 then d else n)"
| "numberOr _ d = d"

text \<open>\<^verbatim>\<open>s || d\<close> on an optional string: \<^verbatim>\<open>d\<close> when \<^verbatim>\<open>s\<close> is undefined or empty.\<close>

fun stringOr :: "string option \<Rightarrow> string \<Rightarrow> string" where
  "stringOr (Some s) d = (if s = [] then d else s)"
| "stringOr None d = d"

section \<open>Template registry (templates.ts)\<close>

record PromptTemplate =
  name :: string
  description :: string
  template :: string

definition promptTemplates :: "PromptTemplate list" where
  "promptTemplates =
   [\<lparr>name = ''general'', description = ''General conversation and questions'',
     template = ''You are a helpful and friendly AI assistant. Please answer the user'' @ [CHR 0x27] @ ''s question clearly and helpfully.\<newline>\<newline>User question: {userInput}\<newline>\<newline>Please provide a clear and helpful response:''\<rparr>,
    \<lparr>name = ''code'', description = ''Programming and coding help'',
     template = ''You are an expert programmer and coding mentor. Help the user with their programming question or problem.\<newline>\<newline>Programming question: {userInput}\<newline>\<newline>Please provide:\<newline>1. A clear explanation\<newline>2. Code examples if needed\<newline>3. Best practices or tips\<newline>\<newline>Response:''\<rparr>,
    \<lparr>name = ''creative'', description = ''Creative writing and storytelling'',
     template = ''You are a creative writing assistant. Help the user with creative tasks like stories, poems, or creative ideas.\<newline>\<newline>Creative request: {userInput}\<newline>\<newline>Please be imaginative, engaging, and help bring their creative vision to life:''\<rparr>,
    \<lparr>name = ''qa'', description = ''Structured question and answer'',
     template = ''You are a knowledgeable expert. Answer the user'' @ [CHR 0x27] @ ''s question with accurate, well-structured information.\<newline>\<newline>Question: {userInput}\<newline>\<newline>Please provide:\<newline>- A direct answer\<newline>- Supporting details\<newline>- Relevant context if helpful\<newline>\<newline>Answer:''\<rparr>]"

subsection \<open>\<^verbatim>\<open>String.prototype.replace\<close> with a string pattern and a string replacement\<close>

text \<open>
  The first occurrence of the pattern splits the subject into the text before it and the
  text after it; there is no split when the pattern does not occur.
\<close>

fun splitAtFirst :: "string \<Rightarrow> string \<Rightarrow> (string \<times> string) option" where
  "splitAtFirst pat [] = (if pat = [] then Some ([], []) else None)"
| "splitAtFirst pat (c # cs) =
     (if prefix pat (c # cs) then Some ([], drop (length pat) (c # cs))
      else map_option (\<lambda>(leading, trailing). (c # leading, trailing)) (splitAtFirst pat cs))"

text \<open>
  ECMAScript's GetSubstitution for a match without capture groups. In the replacement text
  \<^verbatim>\<open>$$\<close> stands for one dollar sign, \<^verbatim>\<open>$&\<close> for the matched text, \<^verbatim>\<open>$`\<close> for the text
  before the match and \<^verbatim>\<open>$'\<close> for the text after it; every other character, a dollar
  sign before anything else included, stands for itself.
\<close>

fun getSubstitution :: "string \<Rightarrow> string \<Rightarrow> string \<Rightarrow> string \<Rightarrow> string" where
  "getSubstitution matched leading trailing [] = []"
| "getSubstitution matched leading trailing [c] = [c]"
| "getSubstitution matched leading trailing (c # d # rest) =
     (if c = CHR ''$'' \<and> d = CHR ''$'' then CHR ''$'' # getSubstitution matched leading trailing rest
      else if c = CHR ''$'' \<and> d = CHR ''&'' then matched @ getSubstitution matched leading trailing rest
      else if c = CHR ''$'' \<and> d = CHR 0x60 then leading @ getSubstitution matched leading trailing rest
      else if c = CHR ''$'' \<and> d = CHR 0x27 then trailing @ getSubstitution matched leading trailing rest
      else c # getSubstitution matched leading trailing (d # rest))"

definition replace :: "string \<Rightarrow> string \<Rightarrow> string \<Rightarrow> string" where
  "replace str pat replacement =
     (case splitAtFirst pat str of
        None \<Rightarrow> str
      | Some (leading, trailing) \<Rightarrow> leading @ getSubstitution pat leading trailing replacement @ trailing)"

text \<open>\<^verbatim>\<open>str.includes(sub)\<close>: the text occurs somewhere in the subject.\<close>

definition strIncludes :: "string \<Rightarrow> string \<Rightarrow> bool" where
  "strIncludes str sub = (splitAtFirst sub str \<noteq> None)"

definition applyTemplate :: "PromptTemplate \<Rightarrow> string \<Rightarrow> string" where
  "applyTemplate t userInput = replace (template t) ''{userInput}'' userInput"

definition getTemplate :: "string \<Rightarrow> PromptTemplate option" where
  "getTemplate nm = find (\<lambda>t. name t = nm) promptTemplates"

section \<open>The chatbot class (chatbot.ts)\<close>

subsection \<open>Configuration\<close>

text \<open>One key of \<^verbatim>\<open>{...base, ...override}\<close>: a key present in the override wins.\<close>

fun spreadProp :: "'a property \<Rightarrow> 'a property \<Rightarrow> 'a property" where
  "spreadProp b Absent = b"
| "spreadProp b ov = ov"

definition spread :: "ChatbotConfig \<Rightarrow> ChatbotConfig \<Rightarrow> ChatbotConfig" where
  "spread base override =
     \<lparr>model = spreadProp (model base) (model override),
      temperature = spreadProp (temperature base) (temperature override),
      maxTokens = spreadProp (maxTokens base) (maxTokens override),
      preamble = spreadProp (preamble base) (preamble override),
      enableStreaming = spreadProp (enableStreaming base) (enableStreaming override),
      activeTemplate = spreadProp (activeTemplate base) (activeTemplate override)\<rparr>"

text \<open>The literal keys the constructor writes before it spreads the caller's object.\<close>

definition defaultConfig :: ChatbotConfig where
  "defaultConfig =
     \<lparr>model = Value ''command-r-plus'', temperature = Value 0.3, maxTokens = Value 500,
      preamble = Absent, enableStreaming = Value False, activeTemplate = Absent\<rparr>"

text \<open>The \<^verbatim>\<open>config = {}\<close> default argument.\<close>

definition emptyConfig :: ChatbotConfig where
  "emptyConfig =
     \<lparr>model = Absent, temperature = Absent, maxTokens = Absent,
      preamble = Absent, enableStreaming = Absent, activeTemplate = Absent\<rparr>"

definition systemMessage :: "string \<Rightarrow> nat \<Rightarrow> ChatMessage" where
  "systemMessage txt now = \<lparr>role = System, content = txt, timestamp = Some now\<rparr>"

text \<open>
  The history the constructor and \<^verbatim>\<open>clearHistory\<close> build from \<^verbatim>\<open>this.config.preamble\<close>.
\<close>

fun preambleHistory :: "string property \<Rightarrow> nat \<Rightarrow> ChatMessage list" where
  "preambleHistory (Value p) now = (if p \<noteq> [] then [systemMessage p now] else [])"
| "preambleHistory _ now = []"

text \<open>
  The constructor; \<open>now\<close> is what \<^verbatim>\<open>new Date()\<close> reads. The API key only builds the
  client.
\<close>

definition constructor :: "ChatbotConfig \<Rightarrow> nat \<Rightarrow> CohereChatbot" where
  "constructor cfg now =
     (let c = spread defaultConfig cfg
      in \<lparr>config = c, conversationHistory = preambleHistory (preamble c) now, console = []\<rparr>)"

definition fromPreset :: "ChatbotPreset \<Rightarrow> nat \<Rightarrow> CohereChatbot" where
  "fromPreset preset now = constructor (CHATBOT_PRESETS preset) now"

text \<open>
  \<open>numberToString\<close> is JavaScript's conversion of a number to text inside the template
  literal.
\<close>

definition getPresetInfo :: "(real \<Rightarrow> string) \<Rightarrow> CohereChatbot \<Rightarrow> string" where
  "getPresetInfo numberToString s =
     (let temp = numberOr (temperature (config s)) 0.3
      in if temp = 0.0 then ''precise (focused on accuracy)''
         else if temp \<le> 0.3 then ''balanced (general conversation)''
         else if temp \<ge> 1.0 then ''creative (imaginative responses)''
         else ''custom (temperature: '' @ numberToString temp @ '')'')"

definition updateConfig :: "ChatbotConfig \<Rightarrow> CohereChatbot \<Rightarrow> CohereChatbot" where
  "updateConfig newConfig s = s\<lparr>config := spread (config s) newConfig\<rparr>"

definition getConfig :: "CohereChatbot \<Rightarrow> ChatbotConfig" where
  "getConfig s = spread emptyConfig (config s)"

subsection \<open>The external chat service\<close>

text \<open>
  What \<^verbatim>\<open>this.client.chat\<close> and \<^verbatim>\<open>this.client.chatStream\<close> are sent: the argument object
  both calls build.
\<close>

record ApiMessage =
  apiRole :: role
  apiContent :: string

record ChatRequest =
  requestModel :: "string option"
  requestMessages :: "ApiMessage list"
  requestTemperature :: "real option"
  requestMaxTokens :: "int option"

text \<open>
  What they answer. In a response each link of
  \<^verbatim>\<open>response.message?.content?.[0]?.text\<close> may be missing. A stream event has a type and,
  through \<^verbatim>\<open>chunk.delta?.message?.content?.text\<close>, a text that may be missing. A stream is
  the events it delivers and how it ends: normally, or by throwing a cause after them.
\<close>

datatype ContentItem = ContentItem "string option"

datatype AssistantMessage = AssistantMessage "ContentItem list option"

datatype ChatResponse = ChatResponse "AssistantMessage option"

datatype StreamEvent = StreamEvent (eventType: string) (deltaText: "string option")

type_synonym ChatStream = "StreamEvent list \<times> string option"

text \<open>
  A call of the service either throws (\<open>Inl\<close>, with the cause) or returns (\<open>Inr\<close>). The
  service may answer the same request differently at different times, so every turn is
  given the client as it behaves during that turn.
\<close>

record CohereClient =
  chat :: "ChatRequest \<Rightarrow> string + ChatResponse"
  chatStream :: "ChatRequest \<Rightarrow> string + ChatStream"

text \<open>\<^verbatim>\<open>response.message?.content?.[0]?.text\<close>\<close>

fun responseText :: "ChatResponse \<Rightarrow> string option" where
  "responseText (ChatResponse None) = None"
| "responseText (ChatResponse (Some (AssistantMessage None))) = None"
| "responseText (ChatResponse (Some (AssistantMessage (Some [])))) = None"
| "responseText (ChatResponse (Some (AssistantMessage (Some (ContentItem t # rest))))) = t"

subsection \<open>Sending a message\<close>

text \<open>The object \<^verbatim>\<open>formatMessagesForAPI\<close> maps a message to.\<close>

definition apiMessage :: "ChatMessage \<Rightarrow> ApiMessage" where
  "apiMessage msg = \<lparr>apiRole = role msg, apiContent = content msg\<rparr>"

definition formatMessagesForAPI :: "CohereChatbot \<Rightarrow> ApiMessage list" where
  "formatMessagesForAPI s =
     map apiMessage (filter (\<lambda>msg. role msg \<noteq> System) (conversationHistory s))"

definition chatRequest :: "CohereChatbot \<Rightarrow> ChatRequest" where
  "chatRequest s =
     \<lparr>requestModel = read (model (config s)),
      requestMessages = formatMessagesForAPI s,
      requestTemperature = read (temperature (config s)),
      requestMaxTokens = read (maxTokens (config s))\<rparr>"

definition sendRegularMessage ::
  "CohereClient \<Rightarrow> nat \<Rightarrow> CohereChatbot \<Rightarrow> (string + string) \<times> CohereChatbot" where
  "sendRegularMessage client now s =
     (case chat client (chatRequest s) of
        Inl cause \<Rightarrow> (Inl cause, s)
      | Inr response \<Rightarrow>
          (let assistantMessage = stringOr (responseText response) ''No response received''
           in (Inr assistantMessage,
               s\<lparr>conversationHistory := conversationHistory s @
                    [\<lparr>role = Assistant, content = assistantMessage, timestamp = Some now\<rparr>]\<rparr>)))"

text \<open>
  The \<^verbatim>\<open>for await\<close> loop over the events: the accumulated \<^verbatim>\<open>fullResponse\<close> and what
  \<^verbatim>\<open>process.stdout.write\<close> has printed so far.
\<close>

fun streamLoop :: "StreamEvent list \<Rightarrow> string \<Rightarrow> string list \<Rightarrow> string \<times> string list" where
  "streamLoop [] fullResponse out = (fullResponse, out)"
| "streamLoop (chunk # rest) fullResponse out =
     (if eventType chunk = ''content-delta''
      then (let delta = stringOr (deltaText chunk) []
            in streamLoop rest (fullResponse @ delta) (out @ [delta]))
      else streamLoop rest fullResponse out)"

definition sendStreamingMessage ::
  "CohereClient \<Rightarrow> nat \<Rightarrow> CohereChatbot \<Rightarrow> (string + string) \<times> CohereChatbot" where
  "sendStreamingMessage client now s =
     (case chatStream client (chatRequest s) of
        Inl cause \<Rightarrow> (Inl cause, s)
      | Inr (chunks, ending) \<Rightarrow>
          (let (fullResponse, out) = streamLoop chunks [] (console s)
           in case ending of
                Some cause \<Rightarrow> (Inl cause, s\<lparr>console := out\<rparr>)
              | None \<Rightarrow>
                  (Inr fullResponse,
                   s\<lparr>console := out @ [[]],
                     conversationHistory := conversationHistory s @
                       [\<lparr>role = Assistant, content = fullResponse, timestamp = Some now\<rparr>]\<rparr>)))"

text \<open>
  \<^verbatim>\<open>sendMessage\<close>: \<open>sent\<close> and \<open>answered\<close> are the two readings of the clock, for the user
  message and for the reply. A thrown \<^verbatim>\<open>Error\<close> is \<open>Inl\<close> of its message.
\<close>

definition sendMessage ::
  "CohereClient \<Rightarrow> nat \<Rightarrow> nat \<Rightarrow> string \<Rightarrow> CohereChatbot \<Rightarrow> (string + string) \<times> CohereChatbot" where
  "sendMessage client sent answered message s =
     (let userMessage = \<lparr>role = User, content = message, timestamp = Some sent\<rparr>;
          s1 = s\<lparr>conversationHistory := conversationHistory s @ [userMessage]\<rparr>
      in case (if truthyBool (enableStreaming (config s1))
               then sendStreamingMessage client answered s1
               else sendRegularMessage client answered s1) of
           (Inr reply, s2) \<Rightarrow> (Inr reply, s2)
         | (Inl cause, s2) \<Rightarrow>
             (Inl ''Failed to get response from Cohere API'',
              s2\<lparr>console := console s2 @ [''Error sending message: '' @ cause]\<rparr>))"

subsection \<open>History, preamble and templates\<close>

definition getConversationHistory :: "CohereChatbot \<Rightarrow> ChatMessage list" where
  "getConversationHistory s = conversationHistory s"

definition clearHistory :: "nat \<Rightarrow> CohereChatbot \<Rightarrow> CohereChatbot" where
  "clearHistory now s = s\<lparr>conversationHistory := preambleHistory (preamble (config s)) now\<rparr>"

definition setPreamble :: "string \<Rightarrow> nat \<Rightarrow> CohereChatbot \<Rightarrow> CohereChatbot" where
  "setPreamble p now s =
     s\<lparr>config := (config s)\<lparr>preamble := Value p\<rparr>,
       conversationHistory :=
         systemMessage p now # filter (\<lambda>msg. role msg \<noteq> System) (conversationHistory s)\<rparr>"

definition setTemplate :: "string \<Rightarrow> CohereChatbot \<Rightarrow> bool \<times> CohereChatbot" where
  "setTemplate templateName s =
     (case getTemplate templateName of
        Some t \<Rightarrow> (True, s\<lparr>config := (config s)\<lparr>activeTemplate := Value templateName\<rparr>\<rparr>)
      | None \<Rightarrow> (False, s))"

definition getActiveTemplate :: "CohereChatbot \<Rightarrow> string option" where
  "getActiveTemplate s = read (activeTemplate (config s))"

definition clearTemplate :: "CohereChatbot \<Rightarrow> CohereChatbot" where
  "clearTemplate s = s\<lparr>config := (config s)\<lparr>activeTemplate := Undefined\<rparr>\<rparr>"

text \<open>The text \<^verbatim>\<open>sendTemplatedMessage\<close> hands to \<^verbatim>\<open>sendMessage\<close>.\<close>

definition finalMessage :: "CohereChatbot \<Rightarrow> string \<Rightarrow> string" where
  "finalMessage s userInput =
     (case activeTemplate (config s) of
        Value active \<Rightarrow>
          (if active \<noteq> []
           then (case getTemplate active of
                   Some t \<Rightarrow> applyTemplate t userInput
                 | None \<Rightarrow> userInput)
           else userInput)
      | _ \<Rightarrow> userInput)"

definition sendTemplatedMessage ::
  "CohereClient \<Rightarrow> nat \<Rightarrow> nat \<Rightarrow> string \<Rightarrow> CohereChatbot \<Rightarrow> (string + string) \<times> CohereChatbot" where
  "sendTemplatedMessage client sent answered userInput s =
     sendMessage client sent answered (finalMessage s userInput) s"

subsection \<open>Sessions: a constructor call followed by public operations\<close>

datatype operation =
    SendMessage CohereClient nat nat string
  | SendTemplatedMessage CohereClient nat nat string
  | SetPreamble string nat
  | ClearHistory nat
  | UpdateConfig ChatbotConfig
  | SetTemplate string
  | ClearTemplate

fun perform :: "operation \<Rightarrow> CohereChatbot \<Rightarrow> CohereChatbot" where
  "perform (SendMessage client sent answered message) s =
     snd (sendMessage client sent answered message s)"
| "perform (SendTemplatedMessage client sent answered userInput) s =
     snd (sendTemplatedMessage client sent answered userInput s)"
| "perform (SetPreamble p now) s = setPreamble p now s"
| "perform (ClearHistory now) s = clearHistory now s"
| "perform (UpdateConfig newConfig) s = updateConfig newConfig s"
| "perform (SetTemplate templateName) s = snd (setTemplate templateName s)"
| "perform ClearTemplate s = clearTemplate s"

text \<open>
  The state of a session built by \<^verbatim>\<open>new CohereChatbot(apiKey, cfg)\<close> at time \<open>now\<close> after
  the operations \<open>ops\<close>, in order.
\<close>

definition session :: "ChatbotConfig \<Rightarrow> nat \<Rightarrow> operation list \<Rightarrow> CohereChatbot" where
  "session cfg now ops = foldl (\<lambda>s opn. perform opn s) (constructor cfg now) ops"

section \<open>Properties\<close>

subsection \<open>Predicates of the properties\<close>

text \<open>
  The system message, if there is one, is the first message: no message after the first
  has the system role.
\<close>

fun systemOnlyFirst :: "ChatMessage list \<Rightarrow> bool" where
  "systemOnlyFirst [] = True"
| "systemOnlyFirst (m # rest) = list_all (\<lambda>x. role x \<noteq> System) rest"

text \<open>
  The external call of a turn throws: the non-streaming call throws, or the streaming call
  throws, or the stream it returned throws while it is read.
\<close>

definition dispatchThrows :: "CohereClient \<Rightarrow> bool \<Rightarrow> ChatRequest \<Rightarrow> bool" where
  "dispatchThrows client streaming request =
     (if streaming
      then (case chatStream client request of
              Inl cause \<Rightarrow> True
            | Inr (chunks, ending) \<Rightarrow> ending \<noteq> None)
      else isl (chat client request))"

text \<open>The texts of the content-delta events of a stream, in arrival order.\<close>

definition fragmentTexts :: "StreamEvent list \<Rightarrow> string list" where
  "fragmentTexts chunks =
     map (\<lambda>chunk. stringOr (deltaText chunk) [])
       (filter (\<lambda>chunk. eventType chunk = ''content-delta'') chunks)"

subsection \<open>Concrete sessions and services\<close>

text \<open>A service that is down, one that answers \<^verbatim>\<open>ok\<close>, one that streams two fragments.\<close>

definition downClient :: CohereClient where
  "downClient =
     \<lparr>chat = (\<lambda>request. Inl ''ECONNREFUSED''), chatStream = (\<lambda>request. Inl ''ECONNREFUSED'')\<rparr>"

definition okClient :: CohereClient where
  "okClient =
     \<lparr>chat = (\<lambda>request. Inr (ChatResponse (Some (AssistantMessage (Some [ContentItem (Some ''ok'')]))))),
      chatStream = (\<lambda>request. Inr ([StreamEvent ''content-delta'' (Some ''ok'')], None))\<rparr>"

definition helloClient :: CohereClient where
  "helloClient =
     \<lparr>chat = (\<lambda>request. Inl ''not used''),
      chatStream = (\<lambda>request. Inr ([StreamEvent ''message-start'' None,
                                       StreamEvent ''content-delta'' (Some ''Hel''),
                                       StreamEvent ''content-delta'' (Some ''lo''),
                                       StreamEvent ''message-end'' None], None))\<rparr>"

text \<open>The override of the \<^verbatim>\<open>updateConfig\<close> example: temperature and streaming only.\<close>

definition exampleOverride :: ChatbotConfig where
  "exampleOverride = emptyConfig\<lparr>temperature := Value 0.8, enableStreaming := Value True\<rparr>"

text \<open>A session whose active template was set to an unregistered name by \<^verbatim>\<open>updateConfig\<close>.\<close>

definition unknownTemplateSession :: CohereChatbot where
  "unknownTemplateSession =
     session emptyConfig 0 [UpdateConfig (emptyConfig\<lparr>activeTemplate := Value ''bogus''\<rparr>)]"

text \<open>Scenario A of the specification, followed by a change of preamble.\<close>

definition terseSession :: CohereChatbot where
  "terseSession =
     session (emptyConfig\<lparr>preamble := Value ''You are terse.''\<rparr>) 0
       [SendMessage okClient 1 2 ''Hi'', SetPreamble ''Be brief.'' 3]"

subsection \<open>Configuration\<close>

text \<open>
  C10. A chatbot constructed with the empty configuration object has model
  \<^verbatim>\<open>command-r-plus\<close>, temperature 0.3, maxTokens 500, streaming off, no preamble key and no
  active-template key, and its conversation history is empty.
\<close>

theorem constructor_defaults:
  "config (constructor emptyConfig now) =
     \<lparr>model = Value ''command-r-plus'', temperature = Value 0.3, maxTokens = Value 500,
      preamble = Absent, enableStreaming = Value False, activeTemplate = Absent\<rparr>
   \<and> read (preamble (config (constructor emptyConfig now))) = None
   \<and> getActiveTemplate (constructor emptyConfig now) = None
   \<and> conversationHistory (constructor emptyConfig now) = []"
  by (simp add: constructor_def spread_def defaultConfig_def emptyConfig_def getActiveTemplate_def)

lemma spreadProp_set: "ov \<noteq> Absent \<Longrightarrow> spreadProp b ov = ov"
  by (cases ov) simp_all

text \<open>
  C3. The merge of a base configuration with an override is field-wise: a field that is set
  in the override (its key is present, whatever it holds) has the override's value in the
  result, and a field that is unset in the override (its key is absent) has the base's
  value. The constructor merges the built-in defaults with the caller's object in this way,
  and \<^verbatim>\<open>updateConfig\<close> merges the current configuration with the new one.
\<close>

theorem spread_override_law:
  "(model ov \<noteq> Absent \<longrightarrow> model (spread b ov) = model ov)
   \<and> (model ov = Absent \<longrightarrow> model (spread b ov) = model b)
   \<and> (temperature ov \<noteq> Absent \<longrightarrow> temperature (spread b ov) = temperature ov)
   \<and> (temperature ov = Absent \<longrightarrow> temperature (spread b ov) = temperature b)
   \<and> (maxTokens ov \<noteq> Absent \<longrightarrow> maxTokens (spread b ov) = maxTokens ov)
   \<and> (maxTokens ov = Absent \<longrightarrow> maxTokens (spread b ov) = maxTokens b)
   \<and> (preamble ov \<noteq> Absent \<longrightarrow> preamble (spread b ov) = preamble ov)
   \<and> (preamble ov = Absent \<longrightarrow> preamble (spread b ov) = preamble b)
   \<and> (enableStreaming ov \<noteq> Absent \<longrightarrow> enableStreaming (spread b ov) = enableStreaming ov)
   \<and> (enableStreaming ov = Absent \<longrightarrow> enableStreaming (spread b ov) = enableStreaming b)
   \<and> (activeTemplate ov \<noteq> Absent \<longrightarrow> activeTemplate (spread b ov) = activeTemplate ov)
   \<and> (activeTemplate ov = Absent \<longrightarrow> activeTemplate (spread b ov) = activeTemplate b)
   \<and> config (constructor ov now) = spread defaultConfig ov
   \<and> config (updateConfig ov s) = spread (config s) ov"
  by (simp add: spread_def spreadProp_set constructor_def updateConfig_def Let_def)

theorem spread_override_law_witness:
  "temperature exampleOverride \<noteq> Absent
   \<and> temperature (spread defaultConfig exampleOverride) = Value 0.8
   \<and> maxTokens exampleOverride = Absent
   \<and> maxTokens (spread defaultConfig exampleOverride) = Value 500"
  using spread_override_law [of exampleOverride defaultConfig 0 "constructor emptyConfig 0"]
  by (simp add: exampleOverride_def emptyConfig_def defaultConfig_def)

text \<open>
  The bands \<^verbatim>\<open>getPresetInfo\<close> does report, for a temperature other than zero, and the one
  it never reports.
\<close>

lemma getPresetInfo_bands:
  assumes "temperature (config s) = Value t" and "t \<noteq> 0"
  shows "t \<le> 0.3 \<Longrightarrow> getPresetInfo f s = ''balanced (general conversation)''"
    and "1.0 \<le> t \<Longrightarrow> getPresetInfo f s = ''creative (imaginative responses)''"
    and "0.3 < t \<Longrightarrow> t < 1.0 \<Longrightarrow> getPresetInfo f s = ''custom (temperature: '' @ f t @ '')''"
  using assms by (simp_all add: getPresetInfo_def)

lemma getPresetInfo_never_precise:
  "getPresetInfo f s \<noteq> ''precise (focused on accuracy)''"
  by (cases "temperature (config s)") (simp_all add: getPresetInfo_def Let_def)

text \<open>
  C1. The specified banding calls temperature 0.0 "precise". The chatbot built from the
  precise preset has temperature 0.0, and \<^verbatim>\<open>getPresetInfo\<close> calls it "balanced": zero is falsy, so
  \<^verbatim>\<open>this.config.temperature || 0.3\<close> is 0.3 and the test \<^verbatim>\<open>temp === 0.0\<close> never holds.
\<close>

theorem getPresetInfo_precise_preset:
  "read (temperature (config (fromPreset Precise now))) = Some 0.0
   \<and> getPresetInfo numberToString (fromPreset Precise now) = ''balanced (general conversation)''"
  by (simp add: getPresetInfo_def fromPreset_def constructor_def spread_def defaultConfig_def)

subsection \<open>Conversation state\<close>

text \<open>
  C7. Calling \<^verbatim>\<open>setPreamble(x)\<close> and then \<^verbatim>\<open>setPreamble(x)\<close> again gives the state that one
  call gives. The system message carries the clock reading of the call that wrote it, so
  the state after both calls is the state of a single call made at the later time; against
  the state after the first call, the second call changes neither the configuration, nor
  the console, nor the role or content of any message, and nothing at all when the clock
  has not moved.
\<close>

theorem setPreamble_idempotent:
  "setPreamble x later (setPreamble x earlier s) = setPreamble x later s
   \<and> setPreamble x now (setPreamble x now s) = setPreamble x now s
   \<and> config (setPreamble x later (setPreamble x earlier s)) = config (setPreamble x earlier s)
   \<and> console (setPreamble x later (setPreamble x earlier s)) = console (setPreamble x earlier s)
   \<and> map (\<lambda>msg. (role msg, content msg))
         (conversationHistory (setPreamble x later (setPreamble x earlier s)))
       = map (\<lambda>msg. (role msg, content msg)) (conversationHistory (setPreamble x earlier s))"
  by (simp add: setPreamble_def systemMessage_def)

text \<open>
  The history keeps its shape under every public operation: a turn only appends user and
  assistant messages, \<^verbatim>\<open>setPreamble\<close> and \<^verbatim>\<open>clearHistory\<close> rebuild the front, and the
  other operations leave the history alone.
\<close>

lemma systemOnlyFirst_append:
  "systemOnlyFirst h \<Longrightarrow> list_all (\<lambda>x. role x \<noteq> System) extra \<Longrightarrow> systemOnlyFirst (h @ extra)"
  by (cases h) (simp_all, cases extra, simp_all)

lemma systemOnlyFirst_preambleHistory: "systemOnlyFirst (preambleHistory p now)"
  by (cases p) simp_all

lemma sendMessage_history:
  "\<exists>extra. conversationHistory (snd (sendMessage client sent answered message s)) =
             conversationHistory s @ extra \<and> list_all (\<lambda>x. role x \<noteq> System) extra"
  by (auto simp add: sendMessage_def sendStreamingMessage_def sendRegularMessage_def
      Let_def split: sum.splits prod.splits option.splits if_splits)

lemma perform_systemOnlyFirst:
  "systemOnlyFirst (conversationHistory s) \<Longrightarrow> systemOnlyFirst (conversationHistory (perform opn s))"
proof (cases opn)
  case (SendMessage client sent answered message)
  assume "systemOnlyFirst (conversationHistory s)"
  then show ?thesis
    using sendMessage_history [of client sent answered message s] SendMessage
    by (auto simp: systemOnlyFirst_append)
next
  case (SendTemplatedMessage client sent answered userInput)
  assume "systemOnlyFirst (conversationHistory s)"
  then show ?thesis
    using sendMessage_history [of client sent answered "finalMessage s userInput" s] SendTemplatedMessage
    by (auto simp: systemOnlyFirst_append sendTemplatedMessage_def)
next
  case (SetPreamble p now)
  then show ?thesis by (simp add: setPreamble_def list_all_iff)
next
  case (ClearHistory now)
  then show ?thesis by (simp add: clearHistory_def systemOnlyFirst_preambleHistory)
next
  case (UpdateConfig newConfig)
  assume "systemOnlyFirst (conversationHistory s)"
  then show ?thesis using UpdateConfig by (simp add: updateConfig_def)
next
  case (SetTemplate templateName)
  assume "systemOnlyFirst (conversationHistory s)"
  then show ?thesis using SetTemplate by (simp add: setTemplate_def split: option.splits)
next
  case ClearTemplate
  assume "systemOnlyFirst (conversationHistory s)"
  then show ?thesis using ClearTemplate by (simp add: clearTemplate_def)
qed

lemma foldl_perform_systemOnlyFirst:
  "systemOnlyFirst (conversationHistory s) \<Longrightarrow>
     systemOnlyFirst (conversationHistory (foldl (\<lambda>s opn. perform opn s) s ops))"
  by (induction ops arbitrary: s) (simp_all add: perform_systemOnlyFirst)

lemma session_systemOnlyFirst: "systemOnlyFirst (conversationHistory (session cfg now ops))"
  unfolding session_def
  by (rule foldl_perform_systemOnlyFirst) (simp add: constructor_def Let_def systemOnlyFirst_preambleHistory)

lemma systemOnlyFirst_position:
  "systemOnlyFirst h \<Longrightarrow> i < length h \<Longrightarrow> role (h ! i) = System \<Longrightarrow> i = 0"
  by (cases h; cases i) (auto simp: list_all_length)

lemma systemOnlyFirst_count:
  "systemOnlyFirst h \<Longrightarrow> length (filter (\<lambda>msg. role msg = System) h) \<le> 1"
  by (cases h) (auto simp: list_all_iff filter_empty_conv[THEN iffD2])

text \<open>
  C5. In every state reached from the constructor by \<^verbatim>\<open>sendMessage\<close>,
  \<^verbatim>\<open>sendTemplatedMessage\<close>, \<^verbatim>\<open>setPreamble\<close>, \<^verbatim>\<open>clearHistory\<close>, \<^verbatim>\<open>updateConfig\<close>,
  \<^verbatim>\<open>setTemplate\<close> and \<^verbatim>\<open>clearTemplate\<close>, in any number and order, the history holds at most
  one system message, and a system message in it is the first element.
\<close>

theorem system_message_only_first:
  "length (filter (\<lambda>msg. role msg = System) (conversationHistory (session cfg now ops))) \<le> 1
   \<and> (\<forall>i < length (conversationHistory (session cfg now ops)).
         role (conversationHistory (session cfg now ops) ! i) = System \<longrightarrow> i = 0)"
  using session_systemOnlyFirst [of cfg now ops] systemOnlyFirst_position systemOnlyFirst_count
  by blast

lemma terseSession_history:
  "conversationHistory terseSession =
     [\<lparr>role = System, content = ''Be brief.'', timestamp = Some 3\<rparr>,
      \<lparr>role = User, content = ''Hi'', timestamp = Some 1\<rparr>,
      \<lparr>role = Assistant, content = ''ok'', timestamp = Some 2\<rparr>]"
  by (simp add: terseSession_def session_def constructor_def spread_def defaultConfig_def
      emptyConfig_def sendMessage_def sendRegularMessage_def okClient_def setPreamble_def
      systemMessage_def Let_def)

theorem system_message_only_first_witness:
  "(0::nat) < length (conversationHistory terseSession)
   \<and> role (conversationHistory terseSession ! 0) = System
   \<and> length (filter (\<lambda>msg. role msg = System) (conversationHistory terseSession)) = 1"
  using system_message_only_first
    [of "emptyConfig\<lparr>preamble := Value ''You are terse.''\<rparr>" 0
        "[SendMessage okClient 1 2 ''Hi'', SetPreamble ''Be brief.'' 3]"]
  by (simp add: terseSession_history terseSession_def[symmetric])

lemma formatMessagesForAPI_payload:
  "(\<forall>m \<in> set (formatMessagesForAPI s). apiRole m \<noteq> System)
   \<and> subseq (formatMessagesForAPI s) (map apiMessage (conversationHistory s))
   \<and> formatMessagesForAPI s = filter (\<lambda>m. apiRole m \<noteq> System) (map apiMessage (conversationHistory s))"
  by (auto simp add: formatMessagesForAPI_def apiMessage_def filter_map comp_def subseq_map)

text \<open>
  C6. In every such state the payload built by \<^verbatim>\<open>formatMessagesForAPI\<close> has no entry with
  the system role, and it is the history's user and assistant messages in their order: a
  subsequence of the history that keeps every message whose role is not system.
\<close>

theorem outbound_payload_without_system:
  "(\<forall>m \<in> set (formatMessagesForAPI (session cfg now ops)). apiRole m \<noteq> System)
   \<and> subseq (formatMessagesForAPI (session cfg now ops))
        (map apiMessage (conversationHistory (session cfg now ops)))
   \<and> formatMessagesForAPI (session cfg now ops) =
       filter (\<lambda>m. apiRole m \<noteq> System) (map apiMessage (conversationHistory (session cfg now ops)))"
  by (rule formatMessagesForAPI_payload)

theorem outbound_payload_without_system_witness:
  "formatMessagesForAPI terseSession =
     [\<lparr>apiRole = User, apiContent = ''Hi''\<rparr>, \<lparr>apiRole = Assistant, apiContent = ''ok''\<rparr>]
   \<and> formatMessagesForAPI terseSession = map apiMessage (tl (conversationHistory terseSession))
   \<and> apiRole (hd (formatMessagesForAPI terseSession)) \<noteq> System"
  using outbound_payload_without_system
    [of "emptyConfig\<lparr>preamble := Value ''You are terse.''\<rparr>" 0
        "[SendMessage okClient 1 2 ''Hi'', SetPreamble ''Be brief.'' 3]"]
  by (simp add: terseSession_def[symmetric] formatMessagesForAPI_def terseSession_history apiMessage_def)

subsection \<open>Turns\<close>

lemma streamLoop_fragments:
  "streamLoop chunks fullResponse out =
     (fullResponse @ concat (fragmentTexts chunks), out @ fragmentTexts chunks)"
  by (induction chunks arbitrary: fullResponse out) (simp_all add: fragmentTexts_def Let_def)

text \<open>
  C2. When the external call of a turn throws, \<^verbatim>\<open>sendMessage\<close> throws the one generic
  error, the history is the old history followed by the user message of the turn, so the
  user message stays and no assistant message was added, and the configuration is as it
  was.
\<close>

theorem sendMessage_dispatch_failure:
  assumes "dispatchThrows client (truthyBool (enableStreaming (config s)))
             (chatRequest (s\<lparr>conversationHistory := conversationHistory s @
                [\<lparr>role = User, content = message, timestamp = Some sent\<rparr>]\<rparr>))"
  shows "fst (sendMessage client sent answered message s) = Inl ''Failed to get response from Cohere API''
       \<and> conversationHistory (snd (sendMessage client sent answered message s)) =
           conversationHistory s @ [\<lparr>role = User, content = message, timestamp = Some sent\<rparr>]
       \<and> filter (\<lambda>msg. role msg = Assistant) (conversationHistory (snd (sendMessage client sent answered message s))) =
           filter (\<lambda>msg. role msg = Assistant) (conversationHistory s)
       \<and> config (snd (sendMessage client sent answered message s)) = config s"
  using assms
  by (auto simp add: sendMessage_def dispatchThrows_def sendStreamingMessage_def sendRegularMessage_def
      Let_def streamLoop_fragments split: sum.splits prod.splits option.splits if_splits)

theorem sendMessage_dispatch_failure_witness:
  "dispatchThrows downClient (truthyBool (enableStreaming (config (constructor emptyConfig 0))))
     (chatRequest ((constructor emptyConfig 0)\<lparr>conversationHistory := conversationHistory (constructor emptyConfig 0) @
                [\<lparr>role = User, content = ''Hi'', timestamp = Some 1\<rparr>]\<rparr>))
   \<and> fst (sendMessage downClient 1 2 ''Hi'' (constructor emptyConfig 0)) = Inl ''Failed to get response from Cohere API''
   \<and> conversationHistory (snd (sendMessage downClient 1 2 ''Hi'' (constructor emptyConfig 0))) =
        [\<lparr>role = User, content = ''Hi'', timestamp = Some 1\<rparr>]"
proof -
  have thrown: "dispatchThrows downClient (truthyBool (enableStreaming (config (constructor emptyConfig 0))))
     (chatRequest ((constructor emptyConfig 0)\<lparr>conversationHistory := conversationHistory (constructor emptyConfig 0) @
                [\<lparr>role = User, content = ''Hi'', timestamp = Some 1\<rparr>]\<rparr>))"
    by (simp add: dispatchThrows_def downClient_def)
  have empty: "conversationHistory (constructor emptyConfig 0) = []"
    by (simp add: constructor_def spread_def defaultConfig_def emptyConfig_def)
  show ?thesis
    using thrown sendMessage_dispatch_failure [OF thrown, of 2] by (simp add: empty)
qed

text \<open>Otherwise the turn returns a reply and commits both messages.\<close>

lemma sendMessage_dispatch_success:
  assumes "\<not> dispatchThrows client (truthyBool (enableStreaming (config s)))
             (chatRequest (s\<lparr>conversationHistory := conversationHistory s @
                [\<lparr>role = User, content = message, timestamp = Some sent\<rparr>]\<rparr>))"
  shows "\<exists>reply. fst (sendMessage client sent answered message s) = Inr reply
       \<and> conversationHistory (snd (sendMessage client sent answered message s)) =
           conversationHistory s @ [\<lparr>role = User, content = message, timestamp = Some sent\<rparr>,
                                    \<lparr>role = Assistant, content = reply, timestamp = Some answered\<rparr>]"
  using assms
  by (auto simp add: sendMessage_def dispatchThrows_def sendStreamingMessage_def sendRegularMessage_def
      Let_def streamLoop_fragments split: sum.splits prod.splits option.splits if_splits)

text \<open>
  C9. When streaming is on and the stream ends normally, the reply returned and committed
  as the assistant message is the concatenation, in arrival order and with nothing in
  between, of the texts of the content-delta events. The instance below is the stream of
  the fragments \<^verbatim>\<open>Hel\<close> and \<^verbatim>\<open>lo\<close>, which commits \<^verbatim>\<open>Hello\<close>.
\<close>

theorem streaming_concatenates_fragments:
  assumes "truthyBool (enableStreaming (config s))"
      and "chatStream client
             (chatRequest (s\<lparr>conversationHistory := conversationHistory s @
                [\<lparr>role = User, content = message, timestamp = Some sent\<rparr>]\<rparr>)) = Inr (chunks, None)"
  shows "fst (sendMessage client sent answered message s) = Inr (concat (fragmentTexts chunks))
       \<and> conversationHistory (snd (sendMessage client sent answered message s)) =
           conversationHistory s @ [\<lparr>role = User, content = message, timestamp = Some sent\<rparr>,
              \<lparr>role = Assistant, content = concat (fragmentTexts chunks), timestamp = Some answered\<rparr>]"
  using assms
  by (simp add: sendMessage_def sendStreamingMessage_def Let_def streamLoop_fragments)

theorem streaming_concatenates_fragments_witness:
  "truthyBool (enableStreaming (config (constructor exampleOverride 0)))
   \<and> chatStream helloClient
         (chatRequest ((constructor exampleOverride 0)\<lparr>conversationHistory :=
            conversationHistory (constructor exampleOverride 0) @
              [\<lparr>role = User, content = ''Hi'', timestamp = Some 1\<rparr>]\<rparr>)) =
       Inr ([StreamEvent ''message-start'' None, StreamEvent ''content-delta'' (Some ''Hel''),
             StreamEvent ''content-delta'' (Some ''lo''), StreamEvent ''message-end'' None], None)
   \<and> fst (sendMessage helloClient 1 2 ''Hi'' (constructor exampleOverride 0)) = Inr ''Hello''
   \<and> conversationHistory (snd (sendMessage helloClient 1 2 ''Hi'' (constructor exampleOverride 0))) =
        [\<lparr>role = User, content = ''Hi'', timestamp = Some 1\<rparr>,
         \<lparr>role = Assistant, content = ''Hello'', timestamp = Some 2\<rparr>]"
proof -
  have streaming: "truthyBool (enableStreaming (config (constructor exampleOverride 0)))"
    by (simp add: constructor_def spread_def defaultConfig_def exampleOverride_def emptyConfig_def)
  have empty: "conversationHistory (constructor exampleOverride 0) = []"
    by (simp add: constructor_def spread_def defaultConfig_def exampleOverride_def emptyConfig_def)
  have stream: "chatStream helloClient
         (chatRequest ((constructor exampleOverride 0)\<lparr>conversationHistory :=
            conversationHistory (constructor exampleOverride 0) @
              [\<lparr>role = User, content = ''Hi'', timestamp = Some 1\<rparr>]\<rparr>)) =
       Inr ([StreamEvent ''message-start'' None, StreamEvent ''content-delta'' (Some ''Hel''),
             StreamEvent ''content-delta'' (Some ''lo''), StreamEvent ''message-end'' None], None)"
    by (simp add: helloClient_def)
  have texts: "fragmentTexts [StreamEvent ''message-start'' None, StreamEvent ''content-delta'' (Some ''Hel''),
             StreamEvent ''content-delta'' (Some ''lo''), StreamEvent ''message-end'' None] = [''Hel'', ''lo'']"
    by (simp add: fragmentTexts_def)
  have committed: "fst (sendMessage helloClient 1 2 ''Hi'' (constructor exampleOverride 0)) = Inr ''Hello''
   \<and> conversationHistory (snd (sendMessage helloClient 1 2 ''Hi'' (constructor exampleOverride 0))) =
        [\<lparr>role = User, content = ''Hi'', timestamp = Some 1\<rparr>,
         \<lparr>role = Assistant, content = ''Hello'', timestamp = Some 2\<rparr>]"
    using streaming_concatenates_fragments [OF streaming stream, of 2]
    by (simp add: texts empty)
  from streaming stream committed show ?thesis by blast
qed

subsection \<open>Templates\<close>

text \<open>
  \<open>splitAtFirst\<close> finds the first occurrence of the pattern, and a replacement text
  without a dollar sign is inserted as it is.
\<close>

lemma splitAtFirst_Some:
  "splitAtFirst pat str = Some (leading, trailing) \<Longrightarrow> str = leading @ pat @ trailing"
proof (induction str arbitrary: leading)
  case Nil
  then show ?case by (simp split: if_splits)
next
  case (Cons c cs)
  show ?case
  proof (cases "prefix pat (c # cs)")
    case True
    then have "c # cs = pat @ drop (length pat) (c # cs)"
      by (metis prefix_def append_eq_conv_conj)
    moreover from True Cons.prems have "leading = []" and "trailing = drop (length pat) (c # cs)"
      by simp_all
    ultimately show ?thesis by simp
  next
    case False
    with Cons.prems obtain f where "splitAtFirst pat cs = Some (f, trailing)" and "leading = c # f"
      by auto
    with Cons.IH show ?thesis by simp
  qed
qed

lemma splitAtFirst_None: "splitAtFirst pat str = None \<longleftrightarrow> \<not> sublist pat str"
  by (induction str) (auto simp: sublist_Cons_right)

lemma strIncludes_sublist: "strIncludes str sub \<longleftrightarrow> sublist sub str"
  by (simp add: strIncludes_def splitAtFirst_None)

lemma splitAtFirst_first:
  "splitAtFirst pat str = Some (leading, trailing) \<Longrightarrow> pat \<noteq> [] \<Longrightarrow> \<not> sublist pat (leading @ butlast pat)"
proof (induction str arbitrary: leading)
  case Nil
  then show ?case by (simp split: if_splits)
next
  case (Cons c cs)
  show ?case
  proof (cases "prefix pat (c # cs)")
    case True
    with Cons.prems have "leading = []" by simp
    moreover have "\<not> sublist pat (butlast pat)"
      using Cons.prems(2) by (metis sublist_length_le length_butlast diff_less length_greater_0_conv less_one not_le)
    ultimately show ?thesis by simp
  next
    case False
    with Cons.prems obtain f where f: "splitAtFirst pat cs = Some (f, trailing)" "leading = c # f"
      by auto
    have "cs = f @ pat @ trailing" using f(1) by (rule splitAtFirst_Some)
    then have "prefix (f @ butlast pat) cs"
      by (metis append.assoc append_butlast_last_id Cons.prems(2) prefixI)
    then have "prefix (c # f @ butlast pat) (c # cs)" by simp
    have "\<not> prefix pat (c # f @ butlast pat)"
      using False \<open>prefix (c # f @ butlast pat) (c # cs)\<close> prefix_order.trans by blast
    moreover have "\<not> sublist pat (f @ butlast pat)" using Cons.IH f(1) Cons.prems(2) by simp
    ultimately show ?thesis using f(2) by (simp add: sublist_Cons_right)
  qed
qed

lemma getSubstitution_plain:
  "CHR ''$'' \<notin> set replacement \<Longrightarrow> getSubstitution matched leading trailing replacement = replacement"
  by (induction matched leading trailing replacement rule: getSubstitution.induct) auto

lemma applyTemplate_plain:
  assumes "CHR ''$'' \<notin> set userInput"
      and "splitAtFirst ''{userInput}'' (template t) = Some (leading, trailing)"
  shows "applyTemplate t userInput = leading @ userInput @ trailing"
  using assms by (simp add: applyTemplate_def replace_def getSubstitution_plain)

lemma applyTemplate_marker_absent:
  "\<not> strIncludes (template t) ''{userInput}'' \<Longrightarrow> applyTemplate t userInput = template t"
  by (cases "splitAtFirst ''{userInput}'' (template t)")
     (simp_all add: applyTemplate_def replace_def strIncludes_def)

lemma getTemplate_code:
  "getTemplate ''code'' = Some (promptTemplates ! 1)"
  by (simp add: getTemplate_def promptTemplates_def)

lemma applyTemplate_code_scenario:
  "strIncludes (applyTemplate (the (getTemplate ''code'')) ''sort an array'') ''sort an array''
   \<and> \<not> strIncludes (applyTemplate (the (getTemplate ''code'')) ''sort an array'') ''{userInput}''"
  by code_simp

text \<open>
  C8. \<^verbatim>\<open>applyTemplate\<close> is specified to insert the user input verbatim and to leave no
  marker behind. On the registered template \<^verbatim>\<open>code\<close> and the user input
  \<^verbatim>\<open>What is $& in JavaScript?\<close>, the result does not contain the user input, and it
  contains the marker again: \<^verbatim>\<open>replace\<close> reads \<^verbatim>\<open>$&\<close> in its second argument as the matched
  text.
\<close>

theorem applyTemplate_dollar_pattern:
  "getTemplate ''code'' \<noteq> None
   \<and> \<not> strIncludes (applyTemplate (the (getTemplate ''code'')) ''What is $& in JavaScript?'')
          ''What is $& in JavaScript?''
   \<and> strIncludes (applyTemplate (the (getTemplate ''code'')) ''What is $& in JavaScript?'')
        ''What is {userInput} in JavaScript?''"
  by code_simp

lemma setTemplate_found:
  "getTemplate nm = Some t \<Longrightarrow>
     setTemplate nm s = (True, s\<lparr>config := (config s)\<lparr>activeTemplate := Value nm\<rparr>\<rparr>)"
  by (simp add: setTemplate_def)

text \<open>
  C4, as stated, has \<^verbatim>\<open>sendTemplatedMessage\<close> report an active template name that is not
  in the registry. In the session below \<^verbatim>\<open>updateConfig\<close> made \<^verbatim>\<open>bogus\<close> the active
  template; the turn returns the reply as \<^verbatim>\<open>sendMessage\<close> on the raw input does, state and
  console included.
\<close>

theorem unknown_template_not_reported:
  "getActiveTemplate unknownTemplateSession = Some ''bogus''
   \<and> getTemplate ''bogus'' = None
   \<and> sendTemplatedMessage okClient 1 2 ''hi'' unknownTemplateSession =
       sendMessage okClient 1 2 ''hi'' unknownTemplateSession
   \<and> fst (sendTemplatedMessage okClient 1 2 ''hi'' unknownTemplateSession) = Inr ''ok''"
  by (simp add: unknownTemplateSession_def session_def updateConfig_def constructor_def spread_def
      defaultConfig_def emptyConfig_def getActiveTemplate_def getTemplate_def promptTemplates_def
      sendTemplatedMessage_def finalMessage_def sendMessage_def sendRegularMessage_def okClient_def
      Let_def)

text \<open>
  C4, amended. \<^verbatim>\<open>setTemplate\<close> on a name that is not in the registry returns false and
  leaves the whole state, the active template included, as it was. When the active
  template name is not in the registry, \<^verbatim>\<open>sendTemplatedMessage\<close> does not report it: the
  turn is the turn \<^verbatim>\<open>sendMessage\<close> makes on the raw user input.
\<close>

theorem template_not_found:
  "(getTemplate nm = None \<longrightarrow> setTemplate nm s = (False, s))
   \<and> (getActiveTemplate s = Some active \<and> getTemplate active = None \<longrightarrow>
        sendTemplatedMessage client sent answered userInput s =
          sendMessage client sent answered userInput s)"
  by (cases "activeTemplate (config s)")
     (simp_all add: setTemplate_def sendTemplatedMessage_def finalMessage_def getActiveTemplate_def)

theorem template_not_found_witness:
  "getTemplate ''nonexistent'' = None
   \<and> setTemplate ''nonexistent'' (fromPreset Balanced 0) = (False, fromPreset Balanced 0)
   \<and> getActiveTemplate unknownTemplateSession = Some ''bogus''
   \<and> getTemplate ''bogus'' = None
   \<and> sendTemplatedMessage downClient 1 2 ''sort an array'' unknownTemplateSession =
       sendMessage downClient 1 2 ''sort an array'' unknownTemplateSession"
proof -
  have missing: "getTemplate ''nonexistent'' = None" "getTemplate ''bogus'' = None"
    by (simp_all add: getTemplate_def promptTemplates_def)
  have active: "getActiveTemplate unknownTemplateSession = Some ''bogus''"
    by (simp add: unknownTemplateSession_def session_def updateConfig_def constructor_def spread_def
        defaultConfig_def emptyConfig_def getActiveTemplate_def)
  show ?thesis
    using missing active
      template_not_found [of "''nonexistent''" "fromPreset Balanced 0"]
      template_not_found [of _ unknownTemplateSession "''bogus''" downClient 1 2 "''sort an array''"]
    by simp
qed

end
